theory Spec2Isabelle
  imports Complex_Main "HOL-Library.AList" "HOL-Library.Word"
begin

section \<open>Data model of \<open>server.py\<close>\<close>

text \<open>
  The server keeps two module-level dictionaries, \<open>clients\<close> and \<open>streaming_clients\<close>,
  and a folder of uploaded files. A Python dictionary keeps its keys in insertion order and
  \<open>admin_response\<close> scans \<open>clients\<close> in that order, so a dictionary is an association
  list: \<open>map_of\<close> reads a key, \<open>AList.update\<close> overwrites a key in place or appends a new
  one at the end, \<open>AList.delete\<close> removes a key.

  Every read of \<open>time.time()\<close> and every \<open>str(uuid.uuid4())[:8]\<close> is an argument of the
  handler that performs it (\<open>now\<close>, \<open>token\<close>). Clock values are numbers; JSON fields that may
  be missing or \<open>null\<close> are \<open>string option\<close>.
\<close>

type_synonym time = real
type_synonym bytes = "8 word list"

record command =
  cmd_id :: string
  cmd_type :: "string option"
  cmd_params :: "string option"

record chat_msg =
  sender :: "string option"
  message :: "string option"
  timestamp :: time

text \<open>A value of \<open>clients\<close>. The key \<open>'chat'\<close> is only created by \<open>chat_send\<close>.\<close>

record client =
  ip :: string
  last_seen :: time
  command_queue :: "command list"
  results :: "(string \<times> string option) list"
  streaming :: bool
  chat :: "chat_msg list option"

text \<open>A value of \<open>streaming_clients\<close>: \<open>{}\<close> has neither key.\<close>

record stream_slot =
  last_frame :: "bytes option"
  frame_time :: "time option"

record state =
  clients :: "(string \<times> client) list"
  streaming_clients :: "(string \<times> stream_slot) list"
  uploads :: "(string \<times> bytes) list"

datatype response =
    Registered string
  | Command "command option"
  | Ok
  | FrameReceived
  | Uploaded string
  | Sent
  | History "chat_msg list"
  | Listing "(string \<times> string \<times> int) list"
  | Queued string
  | Done "string option"
  | Pending
  | Frame bytes
  | Streaming bool
  | Err nat string

text \<open>Python truthiness of an optional string: \<open>not x\<close> holds for \<open>None\<close> and for \<open>""\<close>.\<close>

definition falsy :: "string option \<Rightarrow> bool" where
  "falsy x = (case x of None \<Rightarrow> True | Some v \<Rightarrow> v = [])"

text \<open>\<open>not client_id or client_id not in clients\<close>\<close>

definition unknown_client :: "string option \<Rightarrow> state \<Rightarrow> bool" where
  "unknown_client x s =
     (case x of None \<Rightarrow> True | Some v \<Rightarrow> v = [] \<or> map_of (clients s) v = None)"

definition empty_slot :: stream_slot where
  "empty_slot = \<lparr>last_frame = None, frame_time = None\<rparr>"

section \<open>Helpers\<close>

text \<open>
  \<open>clean_clients\<close>: collect the keys whose session is silent for more than 60, then delete
  each from \<open>clients\<close> and, when present, from \<open>streaming_clients\<close>.
\<close>

definition dead_clients :: "time \<Rightarrow> (string \<times> client) list \<Rightarrow> string list" where
  "dead_clients now cs = map fst (filter (\<lambda>p. now - last_seen (snd p) > 60) cs)"

fun delete_dead :: "string list \<Rightarrow> state \<Rightarrow> state" where
  "delete_dead [] s = s"
| "delete_dead (d # ds) s =
     delete_dead ds
       (s\<lparr>clients := AList.delete d (clients s),
          streaming_clients :=
            (if map_of (streaming_clients s) d \<noteq> None
             then AList.delete d (streaming_clients s) else streaming_clients s)\<rparr>)"

definition clean_clients :: "time \<Rightarrow> state \<Rightarrow> state" where
  "clean_clients now s = delete_dead (dead_clients now (clients s)) s"

section \<open>Client API endpoints\<close>

definition register ::
  "string option \<Rightarrow> string option \<Rightarrow> string \<Rightarrow> string \<Rightarrow> time \<Rightarrow> state \<Rightarrow> response \<times> state"
where
  "register req public_ip remote_addr token now s =
     (let client_id = (if unknown_client req s then token else the req);
          addr = (case public_ip of None \<Rightarrow> remote_addr | Some a \<Rightarrow> a)
      in (Registered client_id,
          s\<lparr>clients := AList.update client_id
               \<lparr>ip = addr, last_seen = now, command_queue = [], results = [],
                streaming = False, chat = None\<rparr> (clients s)\<rparr>))"

definition poll :: "string option \<Rightarrow> time \<Rightarrow> state \<Rightarrow> response \<times> state" where
  "poll req now s =
     (if unknown_client req s then (Err 404 ''Unknown client, re-register'', s)
      else
        (let cid = the req; c = (the (map_of (clients s) cid))\<lparr>last_seen := now\<rparr>
         in case command_queue c of
              [] \<Rightarrow> (Command None, s\<lparr>clients := AList.update cid c (clients s)\<rparr>)
            | cmd # rest \<Rightarrow>
                (Command (Some cmd),
                 s\<lparr>clients := AList.update cid (c\<lparr>command_queue := rest\<rparr>) (clients s)\<rparr>)))"

definition result ::
  "string option \<Rightarrow> string option \<Rightarrow> string option \<Rightarrow> state \<Rightarrow> response \<times> state"
where
  "result req cmd output s =
     (if unknown_client req s then (Err 404 ''Unknown client'', s)
      else if falsy cmd then (Ok, s)
      else
        (let cid = the req; c = the (map_of (clients s) cid)
         in (Ok, s\<lparr>clients := AList.update cid
                      (c\<lparr>results := AList.update (the cmd) output (results c)\<rparr>) (clients s)\<rparr>)))"

text \<open>
  \<open>upload_file\<close>: \<open>file\<close> is the part named \<open>'file'\<close> (its filename and content) when the
  request has one; \<open>stored_name\<close> is the value of
  \<open>secure_filename(f"{client_id}_{int(time.time())}_{file.filename}")\<close>, computed by the
  external library. With the identifier \<open>'ADMIN'\<close> and no such session, storing the result
  marker raises \<open>KeyError\<close> after the file is saved; the handler's \<open>except\<close> answers 500.
\<close>

definition upload_file ::
  "string option \<Rightarrow> string option \<Rightarrow> bool \<Rightarrow> (string \<times> bytes) option \<Rightarrow> string \<Rightarrow> time \<Rightarrow>
   state \<Rightarrow> response \<times> state"
where
  "upload_file req cmd is_stream_frame file stored_name now s =
     (if req \<noteq> Some ''ADMIN'' \<and> unknown_client req s then (Err 404 ''Unknown client'', s)
      else case file of
        None \<Rightarrow> (Err 400 ''No file part'', s)
      | Some (filename, file_data) \<Rightarrow>
          if filename = [] then (Err 400 ''No selected file'', s)
          else
            (let cid = the req in
             if is_stream_frame then
               (let slot = (case map_of (streaming_clients s) cid of
                              None \<Rightarrow> empty_slot | Some sl \<Rightarrow> sl)
                in (FrameReceived,
                    s\<lparr>streaming_clients := AList.update cid
                         (slot\<lparr>last_frame := Some file_data, frame_time := Some now\<rparr>)
                         (streaming_clients s)\<rparr>))
             else
               (let s1 = s\<lparr>uploads := AList.update stored_name file_data (uploads s)\<rparr>
                in if falsy cmd then (Uploaded stored_name, s1)
                   else case map_of (clients s1) cid of
                     None \<Rightarrow> (Err 500 (CHR 0x27 # cid @ [CHR 0x27]), s1)
                   | Some c \<Rightarrow>
                       (Uploaded stored_name,
                        s1\<lparr>clients := AList.update cid
                              (c\<lparr>results := AList.update (the cmd)
                                    (Some (''FILE_UPLOADED:'' @ stored_name)) (results c)\<rparr>)
                              (clients s1)\<rparr>))))"

section \<open>Chat endpoints\<close>

text \<open>\<open>data.get('id') or data.get('target_id')\<close>\<close>

definition py_or :: "string option \<Rightarrow> string option \<Rightarrow> string option" where
  "py_or a b = (if falsy a then b else a)"

definition chat_log :: "client \<Rightarrow> chat_msg list" where
  "chat_log c = (case chat c of None \<Rightarrow> [] | Some l \<Rightarrow> l)"

definition chat_send ::
  "string option \<Rightarrow> string option \<Rightarrow> string option \<Rightarrow> string option \<Rightarrow> string \<Rightarrow> time \<Rightarrow>
   state \<Rightarrow> response \<times> state"
where
  "chat_send ident target_id sndr msg token now s =
     (let req = py_or ident target_id in
      if unknown_client req s then (Err 404 ''Unknown client'', s)
      else
        (let cid = the req; c = the (map_of (clients s) cid);
             msg_obj = \<lparr>sender = sndr, message = msg, timestamp = now\<rparr>;
             c1 = c\<lparr>chat := Some (chat_log c @ [msg_obj])\<rparr>;
             c2 = (if sndr = Some ''admin''
                   then c1\<lparr>command_queue := command_queue c1 @
                          [\<lparr>cmd_id = token, cmd_type = Some ''chat_msg'', cmd_params = msg\<rparr>]\<rparr>
                   else c1)
         in (Sent, s\<lparr>clients := AList.update cid c2 (clients s)\<rparr>)))"

definition chat_history :: "string \<Rightarrow> state \<Rightarrow> response \<times> state" where
  "chat_history cid s =
     (case map_of (clients s) cid of
        Some c \<Rightarrow> (History (chat_log c), s)
      | None \<Rightarrow> (History [], s))"

section \<open>Admin API endpoints\<close>

text \<open>
  \<open>int(x)\<close> on a float truncates towards zero. The listing loop reads the clock once per
  session: \<open>clock i\<close> is the read for the \<open>i\<close>-th session.
\<close>

definition py_int :: "real \<Rightarrow> int" where
  "py_int x = (if x < 0 then \<lceil>x\<rceil> else \<lfloor>x\<rfloor>)"

fun list_active :: "(nat \<Rightarrow> time) \<Rightarrow> nat \<Rightarrow> (string \<times> client) list \<Rightarrow> (string \<times> string \<times> int) list"
where
  "list_active clock i [] = []"
| "list_active clock i ((cid, c) # cs) =
     (cid, ip c, py_int (clock i - last_seen c)) # list_active clock (Suc i) cs"

definition admin_list :: "time \<Rightarrow> (nat \<Rightarrow> time) \<Rightarrow> state \<Rightarrow> response \<times> state" where
  "admin_list now clock s =
     (let s1 = clean_clients now s in (Listing (list_active clock 0 (clients s1)), s1))"

definition admin_command ::
  "string option \<Rightarrow> string option \<Rightarrow> string option \<Rightarrow> string \<Rightarrow> state \<Rightarrow> response \<times> state"
where
  "admin_command target_id ctype params token s =
     (if unknown_client target_id s then (Err 404 ''Client not found'', s)
      else
        (let cid = the target_id;
             cmd = \<lparr>cmd_id = token, cmd_type = ctype,
                    cmd_params = Some (case params of None \<Rightarrow> [] | Some p \<Rightarrow> p)\<rparr>;
             c = the (map_of (clients s) cid);
             c1 = (if ctype = Some ''start_stream'' then c\<lparr>streaming := True\<rparr>
                   else if ctype = Some ''stop_stream'' then c\<lparr>streaming := False\<rparr>
                   else c);
             sc = (if ctype = Some ''start_stream'' then
                     (if map_of (streaming_clients s) cid = None
                      then AList.update cid empty_slot (streaming_clients s)
                      else streaming_clients s)
                   else if ctype = Some ''stop_stream'' then
                     (if map_of (streaming_clients s) cid \<noteq> None
                      then AList.delete cid (streaming_clients s)
                      else streaming_clients s)
                   else streaming_clients s)
         in (Queued token,
             s\<lparr>clients := AList.update cid
                  (c1\<lparr>command_queue := command_queue c1 @ [cmd]\<rparr>) (clients s),
               streaming_clients := sc\<rparr>)))"

text \<open>
  \<open>admin_response\<close>: the first session, in dictionary order, whose results hold the
  command identifier gives up that entry.
\<close>

fun consume :: "string \<Rightarrow> (string \<times> client) list \<Rightarrow> (string option \<times> (string \<times> client) list) option"
where
  "consume k [] = None"
| "consume k ((cid, c) # cs) =
     (case map_of (results c) k of
        Some res \<Rightarrow> Some (res, (cid, c\<lparr>results := AList.delete k (results c)\<rparr>) # cs)
      | None \<Rightarrow>
          (case consume k cs of
             None \<Rightarrow> None
           | Some (res, cs') \<Rightarrow> Some (res, (cid, c) # cs')))"

definition admin_response :: "string \<Rightarrow> state \<Rightarrow> response \<times> state" where
  "admin_response k s =
     (case consume k (clients s) of
        Some (res, cs') \<Rightarrow> (Done res, s\<lparr>clients := cs'\<rparr>)
      | None \<Rightarrow> (Pending, s))"

definition admin_stream_frame :: "string \<Rightarrow> state \<Rightarrow> response \<times> state" where
  "admin_stream_frame cid s =
     (case map_of (streaming_clients s) cid of
        Some slot \<Rightarrow>
          (case last_frame slot of
             Some frame_data \<Rightarrow>
               if frame_data \<noteq> [] then (Frame frame_data, s)
               else (Err 404 ''No frame available'', s)
           | None \<Rightarrow> (Err 404 ''No frame available'', s))
      | None \<Rightarrow> (Err 404 ''No frame available'', s))"

definition admin_stream_status :: "string \<Rightarrow> state \<Rightarrow> response \<times> state" where
  "admin_stream_status cid s =
     (case map_of (clients s) cid of
        Some c \<Rightarrow> (Streaming (streaming c), s)
      | None \<Rightarrow> (Streaming False, s))"

section \<open>Runs of calls and sample states\<close>

text \<open>
  A controller that enqueues a list of commands on one session, one \<open>admin_command\<close> call
  per entry (type, params, generated identifier), and an agent that polls once per clock
  value.
\<close>

fun enqueue_all :: "string \<Rightarrow> (string option \<times> string option \<times> string) list \<Rightarrow> state \<Rightarrow> state"
where
  "enqueue_all cid [] s = s"
| "enqueue_all cid ((ctype, params, token) # es) s =
     enqueue_all cid es (snd (admin_command (Some cid) ctype params token s))"

fun poll_all :: "string \<Rightarrow> time list \<Rightarrow> state \<Rightarrow> response list \<times> state" where
  "poll_all cid [] s = ([], s)"
| "poll_all cid (t # ts) s =
     (fst (poll (Some cid) t s) # fst (poll_all cid ts (snd (poll (Some cid) t s))),
      snd (poll_all cid ts (snd (poll (Some cid) t s))))"

text \<open>The command dictionary that \<open>admin_command\<close> builds from one request.\<close>

fun mk_command :: "string option \<times> string option \<times> string \<Rightarrow> command" where
  "mk_command (ctype, params, token) =
     \<lparr>cmd_id = token, cmd_type = ctype,
      cmd_params = Some (case params of None \<Rightarrow> [] | Some p \<Rightarrow> p)\<rparr>"

text \<open>The session dictionary that \<open>register\<close> stores.\<close>

definition new_client :: "string \<Rightarrow> time \<Rightarrow> client" where
  "new_client addr now =
     \<lparr>ip = addr, last_seen = now, command_queue = [], results = [],
      streaming = False, chat = None\<rparr>"

definition ex_cmd :: command where
  "ex_cmd = \<lparr>cmd_id = ''c9d8e7f6'', cmd_type = Some ''shell'', cmd_params = Some ''whoami''\<rparr>"

definition ex_msg :: chat_msg where
  "ex_msg = \<lparr>sender = Some ''client'', message = Some ''hello'', timestamp = 1\<rparr>"

definition ex_client :: client where
  "ex_client =
     \<lparr>ip = ''10.0.0.1'', last_seen = 0, command_queue = [ex_cmd],
      results = [(''0a0b0c0d'', Some ''done'')], streaming = True, chat = Some [ex_msg]\<rparr>"

definition ex_slot :: stream_slot where
  "ex_slot = \<lparr>last_frame = Some [255, 216], frame_time = Some 0\<rparr>"

text \<open>One session with a queued command, a stored result, a chat entry and a frame.\<close>

definition ex_state :: state where
  "ex_state =
     \<lparr>clients = [(''a1b2c3d4'', ex_client)],
      streaming_clients = [(''a1b2c3d4'', ex_slot)], uploads = []\<rparr>"

text \<open>Two sessions with nothing queued or stored; the first was last seen at 0.\<close>

definition ex_state2 :: state where
  "ex_state2 =
     \<lparr>clients = [(''a1b2c3d4'', new_client ''10.0.0.1'' 0),
                 (''e5f6a7b8'', new_client ''10.0.0.2'' 50)],
      streaming_clients = [], uploads = []\<rparr>"

section \<open>Facts about dictionaries\<close>

lemma update_absent: "map_of al k = None \<Longrightarrow> AList.update k v al = al @ [(k, v)]"
  by (induction al) (auto split: if_splits)

lemma update_present_keys: "map_of al k = Some v0 \<Longrightarrow> map fst (AList.update k v al) = map fst al"
  by (induction al) (auto split: if_splits)

lemma live_after_update: "map_of (AList.update k v al) k = Some v"
  by (simp add: AList.update_conv')

section \<open>Registration\<close>

text \<open>
  C1 (as amended). A \<open>register\<close> call whose requested identifier names a live session
  answers that identifier and keeps the list of session keys as it is: no second session
  appears. It stores a wholly new session dictionary under that key: address and heartbeat
  are the reported address and the current time, and command queue, results and chat log are
  emptied and the streaming flag is cleared. Every other session, the streaming cache and the
  uploads are untouched. A call whose identifier is missing, empty or unknown, when the
  generated token is not the key of a live session, answers the token and appends exactly
  one session under it, with empty queue, results and chat and streaming off.
\<close>

theorem register_effect:
  "(req = Some cid \<and> cid \<noteq> [] \<and> map_of (clients s) cid = Some c \<longrightarrow>
      fst (register req public_ip remote_addr token now s) = Registered cid \<and>
      map fst (clients (snd (register req public_ip remote_addr token now s))) =
        map fst (clients s) \<and>
      map_of (clients (snd (register req public_ip remote_addr token now s))) cid =
        Some (new_client (case public_ip of None \<Rightarrow> remote_addr | Some a \<Rightarrow> a) now) \<and>
      (\<forall>k. k \<noteq> cid \<longrightarrow>
         map_of (clients (snd (register req public_ip remote_addr token now s))) k =
           map_of (clients s) k) \<and>
      streaming_clients (snd (register req public_ip remote_addr token now s)) =
        streaming_clients s \<and>
      uploads (snd (register req public_ip remote_addr token now s)) = uploads s) \<and>
   (unknown_client req s \<and> map_of (clients s) token = None \<longrightarrow>
      register req public_ip remote_addr token now s =
        (Registered token,
         s\<lparr>clients := clients s @
              [(token, new_client (case public_ip of None \<Rightarrow> remote_addr | Some a \<Rightarrow> a) now)]\<rparr>))"
  by (auto simp: register_def unknown_client_def new_client_def Let_def update_absent
      update_present_keys AList.update_conv')

theorem register_effect_witness:
  "fst (register (Some ''a1b2c3d4'') None ''10.0.0.9'' ''0f1e2d3c'' 100 ex_state) =
     Registered ''a1b2c3d4'' \<and>
   map fst (clients (snd (register (Some ''a1b2c3d4'') None ''10.0.0.9'' ''0f1e2d3c'' 100 ex_state)))
     = [''a1b2c3d4''] \<and>
   map_of (clients (snd (register (Some ''a1b2c3d4'') None ''10.0.0.9'' ''0f1e2d3c'' 100 ex_state)))
     ''a1b2c3d4'' = Some (new_client ''10.0.0.9'' 100) \<and>
   register None None ''10.0.0.9'' ''0f1e2d3c'' 100 ex_state =
     (Registered ''0f1e2d3c'',
      ex_state\<lparr>clients := clients ex_state @ [(''0f1e2d3c'', new_client ''10.0.0.9'' 100)]\<rparr>)"
proof -
  have live: "Some ''a1b2c3d4'' = Some ''a1b2c3d4'' \<and> ''a1b2c3d4'' \<noteq> [] \<and>
      map_of (clients ex_state) ''a1b2c3d4'' = Some ex_client"
    by (simp add: ex_state_def)
  have fresh: "unknown_client None ex_state \<and> map_of (clients ex_state) ''0f1e2d3c'' = None"
    by (simp add: unknown_client_def ex_state_def)
  from live fresh
    register_effect [of "Some ''a1b2c3d4''" "''a1b2c3d4''" ex_state ex_client None "''10.0.0.9''"
      "''0f1e2d3c''" 100]
    register_effect [of None "''a1b2c3d4''" ex_state ex_client None "''10.0.0.9''"
      "''0f1e2d3c''" 100]
  show ?thesis by (simp add: ex_state_def)
qed

text \<open>
  C1 as stated fails: re-registering the live session of \<open>ex_state\<close> empties its queue and
  results, drops its chat log and clears its streaming flag; and an absent identifier with
  a generated token equal to a live key creates no new session.
\<close>

theorem register_live_counterexample:
  "map_option command_queue (map_of (clients ex_state) ''a1b2c3d4'') = Some [ex_cmd] \<and>
   map_option command_queue
     (map_of (clients (snd (register (Some ''a1b2c3d4'') None ''10.0.0.9'' ''0f1e2d3c'' 100 ex_state)))
        ''a1b2c3d4'') = Some [] \<and>
   map_option results
     (map_of (clients (snd (register (Some ''a1b2c3d4'') None ''10.0.0.9'' ''0f1e2d3c'' 100 ex_state)))
        ''a1b2c3d4'') = Some [] \<and>
   map_option chat
     (map_of (clients (snd (register (Some ''a1b2c3d4'') None ''10.0.0.9'' ''0f1e2d3c'' 100 ex_state)))
        ''a1b2c3d4'') = Some None \<and>
   map_option streaming
     (map_of (clients (snd (register (Some ''a1b2c3d4'') None ''10.0.0.9'' ''0f1e2d3c'' 100 ex_state)))
        ''a1b2c3d4'') = Some False \<and>
   map fst (clients (snd (register None None ''10.0.0.9'' ''a1b2c3d4'' 100 ex_state))) =
     map fst (clients ex_state)"
  by (simp add: register_def unknown_client_def ex_state_def ex_client_def Let_def)

section \<open>Heartbeat and unknown sessions\<close>

text \<open>
  C2 (as amended). \<open>poll\<close>, \<open>result\<close> and \<open>chat_send\<close> answer 404 and change nothing when
  the identifier names no live session, and so does \<open>upload_file\<close> unless the identifier is
  the sentinel \<open>'ADMIN'\<close>. On a live session only \<open>poll\<close> sets the heartbeat to the current
  time; \<open>result\<close>, \<open>chat_send\<close> and \<open>upload_file\<close> leave it as it was.
\<close>

theorem heartbeat_refresh:
  "(unknown_client req s \<longrightarrow>
      poll req now s = (Err 404 ''Unknown client, re-register'', s) \<and>
      result req cmd output s = (Err 404 ''Unknown client'', s) \<and>
      (py_or ident target_id = req \<longrightarrow>
         chat_send ident target_id sndr msg token now s = (Err 404 ''Unknown client'', s)) \<and>
      (req \<noteq> Some ''ADMIN'' \<longrightarrow>
         upload_file req cmd is_stream_frame file stored_name now s =
           (Err 404 ''Unknown client'', s))) \<and>
   (req = Some cid \<and> cid \<noteq> [] \<and> map_of (clients s) cid = Some c \<longrightarrow>
      map_option last_seen (map_of (clients (snd (poll req now s))) cid) = Some now \<and>
      map_option last_seen (map_of (clients (snd (result req cmd output s))) cid) =
        Some (last_seen c) \<and>
      (py_or ident target_id = req \<longrightarrow>
         map_option last_seen
           (map_of (clients (snd (chat_send ident target_id sndr msg token now s))) cid) =
           Some (last_seen c)) \<and>
      map_option last_seen
        (map_of (clients (snd (upload_file req cmd is_stream_frame file stored_name now s))) cid) =
        Some (last_seen c))"
  by (auto simp: poll_def result_def chat_send_def upload_file_def unknown_client_def Let_def
      AList.update_conv' split: list.splits option.splits)

theorem heartbeat_refresh_witness:
  "poll (Some ''deadbeef'') 100 ex_state = (Err 404 ''Unknown client, re-register'', ex_state) \<and>
   result (Some ''deadbeef'') (Some ''c9d8e7f6'') (Some ''root'') ex_state =
     (Err 404 ''Unknown client'', ex_state) \<and>
   chat_send (Some ''deadbeef'') None (Some ''client'') (Some ''hi'') ''0f1e2d3c'' 100 ex_state =
     (Err 404 ''Unknown client'', ex_state) \<and>
   upload_file (Some ''deadbeef'') (Some ''c9d8e7f6'') True (Some (''f.jpg'', [1])) ''n.jpg'' 100
     ex_state =
     (Err 404 ''Unknown client'', ex_state) \<and>
   map_option last_seen (map_of (clients (snd (poll (Some ''a1b2c3d4'') 100 ex_state))) ''a1b2c3d4'')
     = Some 100 \<and>
   map_option last_seen
     (map_of (clients (snd (result (Some ''a1b2c3d4'') (Some ''c9d8e7f6'') (Some ''root'') ex_state)))
        ''a1b2c3d4'') = Some 0"
proof -
  have dead: "unknown_client (Some ''deadbeef'') ex_state"
    by (simp add: unknown_client_def ex_state_def)
  have live: "Some ''a1b2c3d4'' = Some ''a1b2c3d4'' \<and> ''a1b2c3d4'' \<noteq> [] \<and>
      map_of (clients ex_state) ''a1b2c3d4'' = Some ex_client"
    by (simp add: ex_state_def)
  have orr: "py_or (Some ''deadbeef'') None = Some ''deadbeef''"
    by (simp add: py_or_def falsy_def)
  have last: "last_seen ex_client = 0"
    by (simp add: ex_client_def)
  from dead orr
    heartbeat_refresh [of "Some ''deadbeef''" ex_state 100 "Some ''c9d8e7f6''" "Some ''root''"
      "Some ''deadbeef''" None "Some ''client''" "Some ''hi''" "''0f1e2d3c''" True
      "Some (''f.jpg'', [1])" "''n.jpg''" "''a1b2c3d4''" ex_client]
  have a: "poll (Some ''deadbeef'') 100 ex_state = (Err 404 ''Unknown client, re-register'', ex_state) \<and>
   result (Some ''deadbeef'') (Some ''c9d8e7f6'') (Some ''root'') ex_state =
     (Err 404 ''Unknown client'', ex_state) \<and>
   chat_send (Some ''deadbeef'') None (Some ''client'') (Some ''hi'') ''0f1e2d3c'' 100 ex_state =
     (Err 404 ''Unknown client'', ex_state) \<and>
   upload_file (Some ''deadbeef'') (Some ''c9d8e7f6'') True (Some (''f.jpg'', [1])) ''n.jpg'' 100
     ex_state =
     (Err 404 ''Unknown client'', ex_state)"
    by simp
  from live last
    heartbeat_refresh [of "Some ''a1b2c3d4''" ex_state 100 "Some ''c9d8e7f6''" "Some ''root''"
      "Some ''a1b2c3d4''" None "Some ''client''" "Some ''hi''" "''0f1e2d3c''" True
      "Some (''f.jpg'', [1])" "''n.jpg''" "''a1b2c3d4''" ex_client]
  have b: "map_option last_seen (map_of (clients (snd (poll (Some ''a1b2c3d4'') 100 ex_state))) ''a1b2c3d4'')
     = Some 100 \<and>
   map_option last_seen
     (map_of (clients (snd (result (Some ''a1b2c3d4'') (Some ''c9d8e7f6'') (Some ''root'') ex_state)))
        ''a1b2c3d4'') = Some 0"
    by simp
  from a b show ?thesis by simp
qed

text \<open>
  C2 as stated fails: a chat message and a frame upload at time 100 on the live session of
  \<open>ex_state\<close> leave its heartbeat at 0, and a frame upload under \<open>'ADMIN'\<close>, which names
  no session, is accepted.
\<close>

theorem heartbeat_refresh_counterexample:
  "map_option last_seen
     (map_of (clients (snd (chat_send (Some ''a1b2c3d4'') None (Some ''client'') (Some ''hi'')
        ''0f1e2d3c'' 100 ex_state))) ''a1b2c3d4'') = Some 0 \<and>
   map_option last_seen
     (map_of (clients (snd (upload_file (Some ''a1b2c3d4'') None True (Some (''f.jpg'', [1]))
        ''n.jpg'' 100 ex_state))) ''a1b2c3d4'') = Some 0 \<and>
   map_of (clients ex_state) ''ADMIN'' = None \<and>
   fst (upload_file (Some ''ADMIN'') None True (Some (''f.jpg'', [1])) ''n.jpg'' 100 ex_state) =
     FrameReceived"
  by (simp add: chat_send_def upload_file_def unknown_client_def py_or_def falsy_def Let_def
      ex_state_def ex_client_def chat_log_def)

section \<open>Command queue\<close>

lemma enqueue_all_queue:
  "cid \<noteq> [] \<Longrightarrow> map_of (clients s) cid = Some c \<Longrightarrow>
   \<exists>c'. map_of (clients (enqueue_all cid es s)) cid = Some c' \<and>
        command_queue c' = command_queue c @ map mk_command es"
proof (induction es arbitrary: s c)
  case Nil
  then show ?case by simp
next
  case (Cons e es)
  obtain ctype params token where e: "e = (ctype, params, token)"
    by (cases e) auto
  let ?s1 = "snd (admin_command (Some cid) ctype params token s)"
  from Cons.prems obtain c1 where c1: "map_of (clients ?s1) cid = Some c1"
    and q1: "command_queue c1 = command_queue c @ [mk_command e]"
    by (auto simp: admin_command_def unknown_client_def Let_def AList.update_conv' e)
  from Cons.IH [OF Cons.prems(1) c1] q1 show ?case
    by (simp add: e)
qed

lemma poll_all_queue:
  "cid \<noteq> [] \<Longrightarrow> map_of (clients s) cid = Some c \<Longrightarrow>
   fst (poll_all cid ts s) =
     map Command (map Some (take (length ts) (command_queue c)) @
       replicate (length ts - length (command_queue c)) None) \<and>
   map_option command_queue (map_of (clients (snd (poll_all cid ts s))) cid) =
     Some (drop (length ts) (command_queue c))"
proof (induction ts arbitrary: s c)
  case Nil
  then show ?case by simp
next
  case (Cons t ts)
  let ?s1 = "snd (poll (Some cid) t s)"
  show ?case
  proof (cases "command_queue c")
    case Nil
    with Cons.prems have r: "fst (poll (Some cid) t s) = Command None"
      and c1: "map_of (clients ?s1) cid = Some (c\<lparr>last_seen := t\<rparr>)"
      by (auto simp: poll_def unknown_client_def Let_def AList.update_conv')
    from Cons.IH [OF Cons.prems(1) c1] r Nil show ?thesis
      by simp
  next
    case (Cons cmd rest)
    with Cons.prems have r: "fst (poll (Some cid) t s) = Command (Some cmd)"
      and c1: "map_of (clients ?s1) cid = Some (c\<lparr>last_seen := t, command_queue := rest\<rparr>)"
      by (auto simp: poll_def unknown_client_def Let_def AList.update_conv')
    from Cons.IH [OF Cons.prems(1) c1] r Cons show ?thesis
      by simp
  qed
qed

text \<open>
  C3. On a live session whose queue is \<open>command_queue c\<close>, after any list of enqueue calls
  any number of polls answer the queued commands in the order they were enqueued, one per
  poll, then \<open>None\<close> for every poll made on the empty queue; what stays queued is exactly what
  has not been answered, so no answered command is answered again.
\<close>

theorem fifo_delivery:
  assumes "cid \<noteq> []" and "map_of (clients s) cid = Some c"
  shows "fst (poll_all cid ts (enqueue_all cid es s)) =
           map Command
             (map Some (take (length ts) (command_queue c @ map mk_command es)) @
              replicate (length ts - length (command_queue c @ map mk_command es)) None) \<and>
         map_option command_queue
           (map_of (clients (snd (poll_all cid ts (enqueue_all cid es s)))) cid) =
           Some (drop (length ts) (command_queue c @ map mk_command es))"
proof -
  from enqueue_all_queue [OF assms] obtain c' where
    c': "map_of (clients (enqueue_all cid es s)) cid = Some c'" and
    q': "command_queue c' = command_queue c @ map mk_command es"
    by blast
  from poll_all_queue [OF assms(1) c', of ts] q' show ?thesis
    by simp
qed

theorem fifo_delivery_witness:
  "fst (poll_all ''a1b2c3d4'' [1, 2, 3, 4]
     (enqueue_all ''a1b2c3d4''
        [(Some ''shell'', Some ''id'', ''11111111''), (Some ''screen'', None, ''22222222'')]
        ex_state)) =
     [Command (Some ex_cmd),
      Command (Some \<lparr>cmd_id = ''11111111'', cmd_type = Some ''shell'', cmd_params = Some ''id''\<rparr>),
      Command (Some \<lparr>cmd_id = ''22222222'', cmd_type = Some ''screen'', cmd_params = Some []\<rparr>),
      Command None]"
proof -
  have h1: "''a1b2c3d4'' \<noteq> []"
    by simp
  have h2: "map_of (clients ex_state) ''a1b2c3d4'' = Some ex_client"
    by (simp add: ex_state_def)
  from fifo_delivery [OF h1 h2, of "[1, 2, 3, 4]"
      "[(Some ''shell'', Some ''id'', ''11111111''), (Some ''screen'', None, ''22222222'')]"]
  show ?thesis
    by (simp add: ex_client_def)
qed

section \<open>Result store\<close>

lemma consume_none: "\<forall>p\<in>set cs. map_of (results (snd p)) k = None \<Longrightarrow> consume k cs = None"
  by (induction cs) (auto split: option.splits)

lemma consume_unique:
  "distinct (map fst cs) \<Longrightarrow> map_of cs cid = Some c \<Longrightarrow> map_of (results c) k = Some v \<Longrightarrow>
   \<forall>p\<in>set cs. fst p \<noteq> cid \<longrightarrow> map_of (results (snd p)) k = None \<Longrightarrow>
   consume k cs = Some (v, AList.update cid (c\<lparr>results := AList.delete k (results c)\<rparr>) cs)"
proof (induction cs)
  case Nil
  then show ?case by simp
next
  case (Cons p cs)
  obtain k' c' where p: "p = (k', c')" by (cases p) auto
  show ?case
  proof (cases "k' = cid")
    case True
    with Cons.prems p show ?thesis by simp
  next
    case False
    with Cons.prems p have "consume k cs =
        Some (v, AList.update cid (c\<lparr>results := AList.delete k (results c)\<rparr>) cs)"
      by (intro Cons.IH) auto
    with False Cons.prems p show ?thesis by simp
  qed
qed

lemma set_update_others:
  "p \<in> set (AList.update k v al) \<Longrightarrow> fst p \<noteq> k \<Longrightarrow> p \<in> set al"
  by (induction al) (auto split: if_splits)

lemma set_update_distinct:
  "distinct (map fst al) \<Longrightarrow> p \<in> set (AList.update k v al) \<Longrightarrow> fst p = k \<Longrightarrow> p = (k, v)"
  by (induction al) (auto split: if_splits simp: image_iff dest: set_update_others)

lemma result_then_consume:
  assumes d: "distinct (map fst (clients s))" and cid: "cid \<noteq> []" and k: "k \<noteq> []"
    and c: "map_of (clients s) cid = Some c"
    and others: "\<forall>p\<in>set (clients s). fst p \<noteq> cid \<longrightarrow> map_of (results (snd p)) k = None"
  shows "admin_response k (snd (result (Some cid) (Some k) output s)) =
           (Done output,
            s\<lparr>clients := AList.update cid (c\<lparr>results := AList.delete k (results c)\<rparr>) (clients s)\<rparr>)"
proof -
  let ?c1 = "c\<lparr>results := AList.update k output (results c)\<rparr>"
  let ?cs1 = "AList.update cid ?c1 (clients s)"
  from cid k c have s1: "snd (result (Some cid) (Some k) output s) = s\<lparr>clients := ?cs1\<rparr>"
    by (simp add: result_def unknown_client_def falsy_def Let_def)
  have d1: "distinct (map fst ?cs1)"
    using d by (rule AList.distinct_update)
  have c1: "map_of ?cs1 cid = Some ?c1"
    by (simp add: AList.update_conv')
  have r1: "map_of (results ?c1) k = Some output"
    by (simp add: AList.update_conv')
  have o1: "\<forall>p\<in>set ?cs1. fst p \<noteq> cid \<longrightarrow> map_of (results (snd p)) k = None"
    using others by (blast dest: set_update_others)
  from consume_unique [OF d1 c1 r1 o1]
  have "consume k ?cs1 =
      Some (output, AList.update cid (c\<lparr>results := AList.delete k (results c)\<rparr>) (clients s))"
    by (simp add: AList.delete_update_same)
  with s1 show ?thesis
    by (simp add: admin_response_def)
qed

lemma consumed_then_pending:
  assumes d: "distinct (map fst (clients s))"
    and others: "\<forall>p\<in>set (clients s). fst p \<noteq> cid \<longrightarrow> map_of (results (snd p)) k = None"
  shows "admin_response k
           (s\<lparr>clients := AList.update cid (c\<lparr>results := AList.delete k (results c)\<rparr>) (clients s)\<rparr>) =
         (Pending,
          s\<lparr>clients := AList.update cid (c\<lparr>results := AList.delete k (results c)\<rparr>) (clients s)\<rparr>)"
proof -
  let ?c2 = "c\<lparr>results := AList.delete k (results c)\<rparr>"
  have "\<forall>p\<in>set (AList.update cid ?c2 (clients s)). map_of (results (snd p)) k = None"
  proof
    fix p assume p: "p \<in> set (AList.update cid ?c2 (clients s))"
    show "map_of (results (snd p)) k = None"
    proof (cases "fst p = cid")
      case True
      with d p have "p = (cid, ?c2)" by (rule_tac set_update_distinct)
      then show ?thesis by (simp add: AList.delete_conv')
    next
      case False
      with p others show ?thesis by (blast dest: set_update_others)
    qed
  qed
  then show ?thesis
    by (simp add: admin_response_def consume_none)
qed

text \<open>
  C4 (as amended). For a non-empty command identifier and a live session, when no other
  session holds a result under that identifier, \<open>admin_response\<close> after \<open>result\<close> answers
  the payload just stored and removes it, a second \<open>admin_response\<close> answers pending, and a
  \<open>result\<close> call on an identifier that already has a result overwrites it. The keys of
  \<open>clients\<close> are distinct, as those of a dictionary are.
\<close>

theorem result_consume:
  assumes "distinct (map fst (clients s))" and "cid \<noteq> []" and "k \<noteq> []"
    and "map_of (clients s) cid = Some c"
    and "\<forall>p\<in>set (clients s). fst p \<noteq> cid \<longrightarrow> map_of (results (snd p)) k = None"
  shows "fst (admin_response k (snd (result (Some cid) (Some k) output s))) = Done output \<and>
         map_option (\<lambda>c'. map_of (results c') k)
           (map_of (clients (snd (admin_response k (snd (result (Some cid) (Some k) output s)))))
              cid) = Some None \<and>
         fst (admin_response k
                (snd (admin_response k (snd (result (Some cid) (Some k) output s))))) = Pending \<and>
         fst (admin_response k
                (snd (result (Some cid) (Some k) output
                   (snd (result (Some cid) (Some k) earlier s))))) = Done output"
proof -
  note first = result_then_consume [OF assms, of "output"]
  have a: "fst (admin_response k (snd (result (Some cid) (Some k) output s))) = Done output"
    by (simp add: first)
  have b: "map_option (\<lambda>c'. map_of (results c') k)
           (map_of (clients (snd (admin_response k (snd (result (Some cid) (Some k) output s)))))
              cid) = Some None"
    by (simp add: first AList.update_conv' AList.delete_conv')
  have c: "fst (admin_response k
                (snd (admin_response k (snd (result (Some cid) (Some k) output s))))) = Pending"
    by (simp add: first consumed_then_pending [OF assms(1) assms(5)])
  let ?c1 = "c\<lparr>results := AList.update k earlier (results c)\<rparr>"
  let ?s1 = "s\<lparr>clients := AList.update cid ?c1 (clients s)\<rparr>"
  from assms have s1: "snd (result (Some cid) (Some k) earlier s) = ?s1"
    by (simp add: result_def unknown_client_def falsy_def Let_def)
  have d1: "distinct (map fst (clients ?s1))"
    using assms(1) by (simp add: AList.distinct_update)
  have c1: "map_of (clients ?s1) cid = Some ?c1"
    by (simp add: AList.update_conv')
  have o1: "\<forall>p\<in>set (clients ?s1). fst p \<noteq> cid \<longrightarrow> map_of (results (snd p)) k = None"
    using assms(5) by (auto dest: set_update_others)
  have d: "fst (admin_response k
                (snd (result (Some cid) (Some k) output
                   (snd (result (Some cid) (Some k) earlier s))))) = Done output"
    by (simp add: s1 result_then_consume [OF d1 assms(2) assms(3) c1 o1, of "output"])
  from a b c d show ?thesis by simp
qed

theorem result_consume_witness:
  "fst (admin_response ''c9d8e7f6''
     (snd (result (Some ''e5f6a7b8'') (Some ''c9d8e7f6'') (Some ''root'') ex_state2))) =
     Done (Some ''root'') \<and>
   fst (admin_response ''c9d8e7f6'' (snd (admin_response ''c9d8e7f6''
     (snd (result (Some ''e5f6a7b8'') (Some ''c9d8e7f6'') (Some ''root'') ex_state2))))) = Pending \<and>
   fst (admin_response ''c9d8e7f6''
     (snd (result (Some ''e5f6a7b8'') (Some ''c9d8e7f6'') (Some ''root'')
        (snd (result (Some ''e5f6a7b8'') (Some ''c9d8e7f6'') (Some ''user'') ex_state2))))) =
     Done (Some ''root'')"
proof -
  have h1: "distinct (map fst (clients ex_state2))"
    by (simp add: ex_state2_def)
  have h2: "''e5f6a7b8'' \<noteq> []" and h3: "''c9d8e7f6'' \<noteq> []"
    by simp_all
  have h4: "map_of (clients ex_state2) ''e5f6a7b8'' = Some (new_client ''10.0.0.2'' 50)"
    by (simp add: ex_state2_def)
  have h5: "\<forall>p\<in>set (clients ex_state2). fst p \<noteq> ''e5f6a7b8'' \<longrightarrow>
      map_of (results (snd p)) ''c9d8e7f6'' = None"
    by (simp add: ex_state2_def new_client_def)
  from result_consume [OF h1 h2 h3 h4 h5, of "Some ''root''" "Some ''user''"]
  show ?thesis by simp
qed

text \<open>
  C4 as stated fails: when two sessions report under one command identifier, the scan answers
  the result of the session registered first, not the one set last, and the second
  \<open>admin_response\<close> answers the other result instead of pending; and a result reported under
  the empty identifier is not stored at all.
\<close>

theorem result_consume_counterexample:
  "fst (admin_response ''c9d8e7f6''
     (snd (result (Some ''e5f6a7b8'') (Some ''c9d8e7f6'') (Some ''new'')
        (snd (result (Some ''a1b2c3d4'') (Some ''c9d8e7f6'') (Some ''old'') ex_state2))))) =
     Done (Some ''old'') \<and>
   fst (admin_response ''c9d8e7f6'' (snd (admin_response ''c9d8e7f6''
     (snd (result (Some ''e5f6a7b8'') (Some ''c9d8e7f6'') (Some ''new'')
        (snd (result (Some ''a1b2c3d4'') (Some ''c9d8e7f6'') (Some ''old'') ex_state2))))))) =
     Done (Some ''new'') \<and>
   fst (admin_response [] (snd (result (Some ''a1b2c3d4'') (Some []) (Some ''old'') ex_state2))) =
     Pending"
  by (simp add: admin_response_def result_def unknown_client_def falsy_def Let_def
      ex_state2_def new_client_def)

section \<open>Expiry\<close>

lemma delete_dead_clients:
  "clients (delete_dead ds s) = filter (\<lambda>p. fst p \<notin> set ds) (clients s)"
proof (induction ds arbitrary: s)
  case Nil
  then show ?case by simp
next
  case (Cons d ds)
  have "filter (\<lambda>p. fst p \<notin> set ds) (AList.delete d (clients s)) =
        filter (\<lambda>p. fst p \<notin> set (d # ds)) (clients s)"
    by (auto simp: AList.delete_eq intro: filter_cong)
  with Cons.IH show ?case by simp
qed

lemma delete_dead_streaming:
  "streaming_clients (delete_dead ds s) = filter (\<lambda>p. fst p \<notin> set ds) (streaming_clients s)"
proof (induction ds arbitrary: s)
  case Nil
  then show ?case by simp
next
  case (Cons d ds)
  have absent: "map_of (streaming_clients s) d = None \<Longrightarrow>
      AList.delete d (streaming_clients s) = streaming_clients s"
    by (simp add: map_of_eq_None_iff)
  have "filter (\<lambda>p. fst p \<notin> set ds) (AList.delete d (streaming_clients s)) =
        filter (\<lambda>p. fst p \<notin> set (d # ds)) (streaming_clients s)"
    by (auto simp: AList.delete_eq intro: filter_cong)
  with Cons.IH absent show ?case by auto
qed

lemma map_of_filter_out: "\<not> P k \<Longrightarrow> map_of (filter (\<lambda>p. P (fst p)) al) k = None"
  by (induction al) auto

lemma expired_is_dead:
  "map_of cs cid = Some c \<Longrightarrow> now - last_seen c > 60 \<Longrightarrow> cid \<in> set (dead_clients now cs)"
  by (force simp: dead_clients_def dest: map_of_SomeD)

lemma list_active_keys: "fst ` set (list_active clock i cs) = fst ` set cs"
  by (induction clock i cs rule: list_active.induct) auto

lemma consume_source:
  "consume k cs = Some (v, cs') \<Longrightarrow> \<exists>p\<in>set cs. map_of (results (snd p)) k = Some v"
  by (induction cs arbitrary: cs') (auto split: option.splits)

lemma swept_absent:
  assumes "map_of (clients s) cid = Some c" and "now - last_seen c > 60"
  shows "map_of (clients (clean_clients now s)) cid = None"
    and "map_of (streaming_clients (clean_clients now s)) cid = None"
    and "set (clients (clean_clients now s)) \<subseteq> set (clients s)"
proof -
  from assms have "cid \<in> set (dead_clients now (clients s))"
    by (rule expired_is_dead)
  then show "map_of (clients (clean_clients now s)) cid = None"
    and "map_of (streaming_clients (clean_clients now s)) cid = None"
    by (simp_all add: clean_clients_def delete_dead_clients delete_dead_streaming
        map_of_filter_out [where P = "\<lambda>k. k \<notin> set (dead_clients now (clients s))"])
  show "set (clients (clean_clients now s)) \<subseteq> set (clients s)"
    by (auto simp: clean_clients_def delete_dead_clients)
qed

text \<open>
  C5. A session whose heartbeat is more than 60 behind the clock read by the sweep is not in
  the answer of \<open>admin_list\<close> and, in the state that call leaves, is a key of neither
  \<open>clients\<close> nor \<open>streaming_clients\<close>, which hold everything a session owns. So a poll or an
  enqueue under its identifier answers 404, its chat history reads as empty, it has no frame
  and no streaming flag, and any result that \<open>admin_response\<close> gives up was stored by
  another session.
\<close>

theorem sweep_expired:
  assumes "map_of (clients s) cid = Some c" and "now - last_seen c > 60"
  shows "(\<exists>l. fst (admin_list now clock s) = Listing l \<and> cid \<notin> fst ` set l) \<and>
         map_of (clients (snd (admin_list now clock s))) cid = None \<and>
         map_of (streaming_clients (snd (admin_list now clock s))) cid = None \<and>
         poll (Some cid) t (snd (admin_list now clock s)) =
           (Err 404 ''Unknown client, re-register'', snd (admin_list now clock s)) \<and>
         admin_command (Some cid) ctype params token (snd (admin_list now clock s)) =
           (Err 404 ''Client not found'', snd (admin_list now clock s)) \<and>
         chat_history cid (snd (admin_list now clock s)) =
           (History [], snd (admin_list now clock s)) \<and>
         admin_stream_frame cid (snd (admin_list now clock s)) =
           (Err 404 ''No frame available'', snd (admin_list now clock s)) \<and>
         admin_stream_status cid (snd (admin_list now clock s)) =
           (Streaming False, snd (admin_list now clock s)) \<and>
         (\<forall>k v. fst (admin_response k (snd (admin_list now clock s))) = Done v \<longrightarrow>
            (\<exists>p\<in>set (clients s). fst p \<noteq> cid \<and> map_of (results (snd p)) k = Some v))"
proof -
  let ?s1 = "clean_clients now s"
  note gone = swept_absent [OF assms]
  have s1: "snd (admin_list now clock s) = ?s1"
    and l: "fst (admin_list now clock s) = Listing (list_active clock 0 (clients ?s1))"
    by (simp_all add: admin_list_def Let_def)
  from gone(1) have "cid \<notin> fst ` set (clients ?s1)"
    by (simp add: map_of_eq_None_iff)
  then have a: "\<exists>l. fst (admin_list now clock s) = Listing l \<and> cid \<notin> fst ` set l"
    by (simp add: l list_active_keys)
  have b: "poll (Some cid) t ?s1 = (Err 404 ''Unknown client, re-register'', ?s1)"
    using gone(1) by (simp add: poll_def unknown_client_def)
  have c: "admin_command (Some cid) ctype params token ?s1 = (Err 404 ''Client not found'', ?s1)"
    using gone(1) by (simp add: admin_command_def unknown_client_def)
  have d: "chat_history cid ?s1 = (History [], ?s1)"
    using gone(1) by (simp add: chat_history_def)
  have e: "admin_stream_frame cid ?s1 = (Err 404 ''No frame available'', ?s1)"
    using gone(2) by (simp add: admin_stream_frame_def)
  have f: "admin_stream_status cid ?s1 = (Streaming False, ?s1)"
    using gone(1) by (simp add: admin_stream_status_def)
  have g: "\<exists>p\<in>set (clients s). fst p \<noteq> cid \<and> map_of (results (snd p)) k = Some v"
    if "fst (admin_response k ?s1) = Done v" for k v
  proof -
    from that obtain cs' where "consume k (clients ?s1) = Some (v, cs')"
      by (auto simp: admin_response_def split: option.splits)
    then obtain p where p: "p \<in> set (clients ?s1)" and r: "map_of (results (snd p)) k = Some v"
      by (blast dest: consume_source)
    from p \<open>cid \<notin> fst ` set (clients ?s1)\<close> have "fst p \<noteq> cid"
      by auto
    with p r gone(3) show ?thesis
      by blast
  qed
  from a b c d e f g gone(1,2) show ?thesis
    unfolding s1 by blast
qed

theorem sweep_expired_witness:
  "fst (admin_list 61 (\<lambda>i. 61) ex_state2) = Listing [(''e5f6a7b8'', ''10.0.0.2'', 11)] \<and>
   map_of (clients (snd (admin_list 61 (\<lambda>i. 61) ex_state2))) ''a1b2c3d4'' = None \<and>
   poll (Some ''a1b2c3d4'') 62 (snd (admin_list 61 (\<lambda>i. 61) ex_state2)) =
     (Err 404 ''Unknown client, re-register'', snd (admin_list 61 (\<lambda>i. 61) ex_state2))"
proof -
  have h1: "map_of (clients ex_state2) ''a1b2c3d4'' = Some (new_client ''10.0.0.1'' 0)"
    by (simp add: ex_state2_def)
  have h2: "61 - last_seen (new_client ''10.0.0.1'' 0) > 60"
    by (simp add: new_client_def)
  have l: "fst (admin_list 61 (\<lambda>i. 61) ex_state2) = Listing [(''e5f6a7b8'', ''10.0.0.2'', 11)]"
    by (simp add: admin_list_def clean_clients_def dead_clients_def ex_state2_def new_client_def
        py_int_def Let_def)
  from sweep_expired [OF h1 h2, of "\<lambda>i. 61" 62] l show ?thesis
    by simp
qed

section \<open>Streaming\<close>

text \<open>
  C6. On a live session, enqueueing \<open>start_stream\<close> makes \<open>admin_stream_status\<close> answer true
  at once and creates an empty frame slot when there was none (an existing slot stays);
  enqueueing \<open>stop_stream\<close> makes it answer false at once and removes the slot. In both
  cases the command itself is still at the tail of the queue, not yet polled.
\<close>

theorem stream_commands:
  assumes "cid \<noteq> []" and "map_of (clients s) cid = Some c"
  shows "fst (admin_command (Some cid) (Some ''start_stream'') params token s) = Queued token \<and>
         fst (admin_stream_status cid
                (snd (admin_command (Some cid) (Some ''start_stream'') params token s))) =
           Streaming True \<and>
         map_of (streaming_clients
                   (snd (admin_command (Some cid) (Some ''start_stream'') params token s))) cid =
           Some (case map_of (streaming_clients s) cid of None \<Rightarrow> empty_slot | Some sl \<Rightarrow> sl) \<and>
         map_option command_queue
           (map_of (clients (snd (admin_command (Some cid) (Some ''start_stream'') params token s)))
              cid) =
           Some (command_queue c @ [mk_command (Some ''start_stream'', params, token)]) \<and>
         fst (admin_command (Some cid) (Some ''stop_stream'') params token s) = Queued token \<and>
         fst (admin_stream_status cid
                (snd (admin_command (Some cid) (Some ''stop_stream'') params token s))) =
           Streaming False \<and>
         map_of (streaming_clients
                   (snd (admin_command (Some cid) (Some ''stop_stream'') params token s))) cid =
           None \<and>
         map_option command_queue
           (map_of (clients (snd (admin_command (Some cid) (Some ''stop_stream'') params token s)))
              cid) =
           Some (command_queue c @ [mk_command (Some ''stop_stream'', params, token)])"
  using assms
  by (auto simp: admin_command_def admin_stream_status_def unknown_client_def Let_def
      AList.update_conv' AList.delete_conv' split: option.splits)

theorem stream_commands_witness:
  "fst (admin_stream_status ''e5f6a7b8''
     (snd (admin_command (Some ''e5f6a7b8'') (Some ''start_stream'') None ''11111111'' ex_state2))) =
     Streaming True \<and>
   map_of (streaming_clients
     (snd (admin_command (Some ''e5f6a7b8'') (Some ''start_stream'') None ''11111111'' ex_state2)))
     ''e5f6a7b8'' = Some empty_slot \<and>
   fst (admin_stream_status ''a1b2c3d4''
     (snd (admin_command (Some ''a1b2c3d4'') (Some ''stop_stream'') None ''11111111'' ex_state))) =
     Streaming False \<and>
   map_of (streaming_clients
     (snd (admin_command (Some ''a1b2c3d4'') (Some ''stop_stream'') None ''11111111'' ex_state)))
     ''a1b2c3d4'' = None"
proof -
  have h1: "''e5f6a7b8'' \<noteq> []" and h2: "''a1b2c3d4'' \<noteq> []"
    by simp_all
  have h3: "map_of (clients ex_state2) ''e5f6a7b8'' = Some (new_client ''10.0.0.2'' 50)"
    by (simp add: ex_state2_def)
  have h4: "map_of (clients ex_state) ''a1b2c3d4'' = Some ex_client"
    by (simp add: ex_state_def)
  have h5: "map_of (streaming_clients ex_state2) ''e5f6a7b8'' = None"
    by (simp add: ex_state2_def)
  from stream_commands [OF h1 h3, of None "''11111111''"]
    stream_commands [OF h2 h4, of None "''11111111''"] h5
  show ?thesis by simp
qed

text \<open>
  C7 (as amended). A push is a frame upload whose file part has a non-empty filename; an
  upload with an empty filename is answered 400 and stores nothing. On a live session,
  whatever its streaming flag, a push with non-empty content is answered by the next
  \<open>admin_stream_frame\<close> with exactly that content, and after two pushes only the content of
  the second is answered. After a push of the empty byte string \<open>admin_stream_frame\<close>
  answers that there is no frame.
\<close>

theorem push_latest_frame:
  assumes "cid \<noteq> []" and "map_of (clients s) cid = Some c"
  shows "(filename \<noteq> [] \<and> frame \<noteq> [] \<longrightarrow>
            fst (upload_file (Some cid) cmd True (Some (filename, frame)) stored_name now s) =
              FrameReceived \<and>
            fst (admin_stream_frame cid
                   (snd (upload_file (Some cid) cmd True (Some (filename, frame)) stored_name now
                      s))) = Frame frame \<and>
            fst (admin_stream_frame cid
                   (snd (upload_file (Some cid) cmd True (Some (filename, frame)) stored_name now
                      (snd (upload_file (Some cid) cmd' True (Some (filename', earlier))
                         stored_name' now' s))))) = Frame frame) \<and>
         (filename \<noteq> [] \<longrightarrow>
            fst (upload_file (Some cid) cmd True (Some (filename, [])) stored_name now s) =
              FrameReceived \<and>
            fst (admin_stream_frame cid
                   (snd (upload_file (Some cid) cmd True (Some (filename, [])) stored_name now s))) =
              Err 404 ''No frame available'') \<and>
         upload_file (Some cid) cmd True (Some ([], frame)) stored_name now s =
           (Err 400 ''No selected file'', s)"
proof -
  have live: "\<not> unknown_client (Some cid) s"
    using assms by (simp add: unknown_client_def)
  have push: "upload_file (Some cid) q True (Some (fn, b)) nm t s0 =
      (FrameReceived,
       s0\<lparr>streaming_clients := AList.update cid
             ((case map_of (streaming_clients s0) cid of None \<Rightarrow> empty_slot | Some sl \<Rightarrow> sl)
                \<lparr>last_frame := Some b, frame_time := Some t\<rparr>) (streaming_clients s0)\<rparr>)"
    if "fn \<noteq> []" and "clients s0 = clients s" for q fn b nm t s0
    using that live by (simp add: upload_file_def unknown_client_def Let_def)
  have latest: "fst (admin_stream_frame cid
        (s0\<lparr>streaming_clients := AList.update cid (sl\<lparr>last_frame := Some b, frame_time := Some t\<rparr>)
           (streaming_clients s0)\<rparr>)) =
      (if b \<noteq> [] then Frame b else Err 404 ''No frame available'')" for s0 sl b t
    by (simp add: admin_stream_frame_def AList.update_conv')
  have rejected: "upload_file (Some cid) q True (Some ([], b)) nm t s = (Err 400 ''No selected file'', s)"
    for q b nm t
    using live by (simp add: upload_file_def)
  have first_kept: "clients (snd (upload_file (Some cid) cmd' True (Some (filename', earlier))
      stored_name' now' s)) = clients s"
    using live by (simp add: upload_file_def Let_def)
  show ?thesis
    by (simp add: push [OF _ refl] push [OF _ first_kept] latest rejected)
qed

theorem push_latest_frame_witness:
  "map_option streaming (map_of (clients ex_state2) ''e5f6a7b8'') = Some False \<and>
   fst (admin_stream_frame ''e5f6a7b8''
     (snd (upload_file (Some ''e5f6a7b8'') None True (Some (''f.jpg'', [7, 8])) ''n.jpg'' 51
        ex_state2))) = Frame [7, 8] \<and>
   fst (admin_stream_frame ''e5f6a7b8''
     (snd (upload_file (Some ''e5f6a7b8'') None True (Some (''f.jpg'', [7, 8])) ''n.jpg'' 51
        (snd (upload_file (Some ''e5f6a7b8'') None True (Some (''g.jpg'', [1, 2, 3])) ''m.jpg'' 50
           ex_state2))))) = Frame [7, 8] \<and>
   fst (admin_stream_frame ''e5f6a7b8''
     (snd (upload_file (Some ''e5f6a7b8'') None True (Some (''f.jpg'', [])) ''n.jpg'' 51
        ex_state2))) = Err 404 ''No frame available'' \<and>
   upload_file (Some ''e5f6a7b8'') None True (Some ([], [7, 8])) ''n.jpg'' 51 ex_state2 =
     (Err 400 ''No selected file'', ex_state2) \<and>
   map_option streaming (map_of (clients ex_state) ''a1b2c3d4'') = Some True \<and>
   fst (admin_stream_frame ''a1b2c3d4''
     (snd (upload_file (Some ''a1b2c3d4'') None True (Some (''f.jpg'', [7, 8])) ''n.jpg'' 51
        ex_state))) = Frame [7, 8]"
proof -
  have h1: "''e5f6a7b8'' \<noteq> []" and h1': "''a1b2c3d4'' \<noteq> []"
    by simp_all
  have h2: "map_of (clients ex_state2) ''e5f6a7b8'' = Some (new_client ''10.0.0.2'' 50)"
    by (simp add: ex_state2_def)
  have h2': "map_of (clients ex_state) ''a1b2c3d4'' = Some ex_client"
    by (simp add: ex_state_def)
  have h3: "''f.jpg'' \<noteq> [] \<and> [7, 8 :: 8 word] \<noteq> []"
    by simp
  from push_latest_frame [OF h1 h2, of "''f.jpg''" "[7, 8]" None "''n.jpg''" 51 None "''g.jpg''"
      "[1, 2, 3]" "''m.jpg''" 50]
    push_latest_frame [OF h1' h2', of "''f.jpg''" "[7, 8]" None "''n.jpg''" 51 None "''g.jpg''"
      "[1, 2, 3]" "''m.jpg''" 50] h2 h2' h3
  show ?thesis
    by (simp add: new_client_def ex_client_def)
qed

text \<open>
  C7 as stated fails for the empty byte string: the upload is accepted, and
  \<open>admin_stream_frame\<close> then answers 404, since \<open>if frame_data\<close> is false for \<open>b''\<close>.
\<close>

theorem push_empty_frame_counterexample:
  "fst (upload_file (Some ''a1b2c3d4'') None True (Some (''f.jpg'', [])) ''n.jpg'' 100 ex_state) =
     FrameReceived \<and>
   fst (admin_stream_frame ''a1b2c3d4''
     (snd (upload_file (Some ''a1b2c3d4'') None True (Some (''f.jpg'', [])) ''n.jpg'' 100 ex_state))) =
     Err 404 ''No frame available''"
  by (simp add: upload_file_def admin_stream_frame_def unknown_client_def Let_def ex_state_def)

section \<open>Chat\<close>

text \<open>
  C8. On a live session \<open>chat_send\<close> appends exactly one entry to the chat log. When the
  sender is \<open>'admin'\<close> it also appends one \<open>chat_msg\<close> command, whose params are the message,
  at the tail of the session's queue; with any other sender the queue is unchanged.
\<close>

theorem chat_send_effect:
  assumes "py_or ident target_id = Some cid" and "cid \<noteq> []"
    and "map_of (clients s) cid = Some c"
  shows "fst (chat_send ident target_id sndr msg token now s) = Sent \<and>
         map_option chat_log
           (map_of (clients (snd (chat_send ident target_id sndr msg token now s))) cid) =
           Some (chat_log c @ [\<lparr>sender = sndr, message = msg, timestamp = now\<rparr>]) \<and>
         map_option command_queue
           (map_of (clients (snd (chat_send ident target_id sndr msg token now s))) cid) =
           Some (if sndr = Some ''admin''
                 then command_queue c @
                   [\<lparr>cmd_id = token, cmd_type = Some ''chat_msg'', cmd_params = msg\<rparr>]
                 else command_queue c)"
  using assms
  by (simp add: chat_send_def unknown_client_def Let_def AList.update_conv' chat_log_def)

theorem chat_send_effect_witness:
  "fst (chat_history ''e5f6a7b8''
     (snd (chat_send None (Some ''e5f6a7b8'') (Some ''admin'') (Some ''hi'') ''11111111'' 51
        ex_state2))) =
     History [\<lparr>sender = Some ''admin'', message = Some ''hi'', timestamp = 51\<rparr>] \<and>
   fst (poll (Some ''e5f6a7b8'') 52
     (snd (chat_send None (Some ''e5f6a7b8'') (Some ''admin'') (Some ''hi'') ''11111111'' 51
        ex_state2))) =
     Command (Some \<lparr>cmd_id = ''11111111'', cmd_type = Some ''chat_msg'', cmd_params = Some ''hi''\<rparr>) \<and>
   fst (poll (Some ''e5f6a7b8'') 52
     (snd (chat_send (Some ''e5f6a7b8'') None (Some ''client'') (Some ''hi'') ''11111111'' 51
        ex_state2))) = Command None"
proof -
  have h1: "py_or None (Some ''e5f6a7b8'') = Some ''e5f6a7b8''"
    and h1': "py_or (Some ''e5f6a7b8'') None = Some ''e5f6a7b8''"
    by (simp_all add: py_or_def falsy_def)
  have h2: "''e5f6a7b8'' \<noteq> []"
    by simp
  have h3: "map_of (clients ex_state2) ''e5f6a7b8'' = Some (new_client ''10.0.0.2'' 50)"
    by (simp add: ex_state2_def)
  from chat_send_effect [OF h1 h2 h3, of "Some ''admin''" "Some ''hi''" "''11111111''" 51]
    chat_send_effect [OF h1' h2 h3, of "Some ''client''" "Some ''hi''" "''11111111''" 51]
  show ?thesis
    by (auto simp: chat_history_def poll_def unknown_client_def Let_def new_client_def chat_log_def
        split: option.splits list.splits)
qed

text \<open>
  C9. \<open>chat_history\<close> never changes the state; it answers the empty list for an identifier
  that names no session and the whole chat log, in order, for a live one.
\<close>

theorem chat_history_lenient:
  "snd (chat_history cid s) = s \<and>
   (map_of (clients s) cid = None \<longrightarrow> fst (chat_history cid s) = History []) \<and>
   (map_of (clients s) cid = Some c \<longrightarrow> fst (chat_history cid s) = History (chat_log c))"
  by (simp add: chat_history_def split: option.splits)

theorem chat_history_lenient_witness:
  "chat_history ''deadbeef'' ex_state = (History [], ex_state) \<and>
   chat_history ''a1b2c3d4'' ex_state = (History [ex_msg], ex_state)"
proof -
  have h1: "map_of (clients ex_state) ''deadbeef'' = None"
    and h2: "map_of (clients ex_state) ''a1b2c3d4'' = Some ex_client"
    by (simp_all add: ex_state_def)
  have h3: "chat_log ex_client = [ex_msg]"
    by (simp add: chat_log_def ex_client_def)
  from chat_history_lenient [of "''deadbeef''" ex_state ex_client]
    chat_history_lenient [of "''a1b2c3d4''" ex_state ex_client] h1 h2 h3
  show ?thesis
    by (simp add: prod_eq_iff)
qed

section \<open>Re-registration and the streaming cache\<close>

text \<open>
  C10 (as amended). Re-registering a live session that holds a cached frame answers the same
  identifier, keeps the session live with its streaming flag cleared and leaves
  \<open>streaming_clients\<close> as it is, so the slot still holds the frame pushed before. When that
  frame is not empty \<open>admin_stream_frame\<close> still answers it; when it is the empty byte
  string \<open>admin_stream_frame\<close> answers that there is no frame, before and after the call.
\<close>

theorem reregister_keeps_frame:
  assumes "cid \<noteq> []" and "map_of (clients s) cid = Some c"
    and "map_of (streaming_clients s) cid = Some slot"
    and "last_frame slot = Some frame"
  shows "fst (register (Some cid) public_ip remote_addr token now s) = Registered cid \<and>
         map_option streaming
           (map_of (clients (snd (register (Some cid) public_ip remote_addr token now s))) cid) =
           Some False \<and>
         fst (admin_stream_status cid
                (snd (register (Some cid) public_ip remote_addr token now s))) =
           Streaming False \<and>
         streaming_clients (snd (register (Some cid) public_ip remote_addr token now s)) =
           streaming_clients s \<and>
         map_option last_frame
           (map_of (streaming_clients (snd (register (Some cid) public_ip remote_addr token now s)))
              cid) = Some (Some frame) \<and>
         (frame \<noteq> [] \<longrightarrow>
            fst (admin_stream_frame cid
                   (snd (register (Some cid) public_ip remote_addr token now s))) = Frame frame) \<and>
         (frame = [] \<longrightarrow>
            fst (admin_stream_frame cid s) = Err 404 ''No frame available'' \<and>
            fst (admin_stream_frame cid
                   (snd (register (Some cid) public_ip remote_addr token now s))) =
              Err 404 ''No frame available'')"
  using assms
  by (simp add: register_def admin_stream_status_def admin_stream_frame_def unknown_client_def
      Let_def AList.update_conv')

theorem reregister_keeps_frame_witness:
  "fst (admin_stream_status ''a1b2c3d4'' ex_state) = Streaming True \<and>
   map_option streaming
     (map_of (clients (snd (register (Some ''a1b2c3d4'') None ''10.0.0.9'' ''0f1e2d3c'' 100 ex_state)))
        ''a1b2c3d4'') = Some False \<and>
   fst (admin_stream_status ''a1b2c3d4''
     (snd (register (Some ''a1b2c3d4'') None ''10.0.0.9'' ''0f1e2d3c'' 100 ex_state))) =
     Streaming False \<and>
   fst (admin_stream_frame ''a1b2c3d4''
     (snd (register (Some ''a1b2c3d4'') None ''10.0.0.9'' ''0f1e2d3c'' 100 ex_state))) =
     Frame [255, 216] \<and>
   fst (admin_stream_frame ''a1b2c3d4''
     (snd (register (Some ''a1b2c3d4'') None ''10.0.0.9'' ''0f1e2d3c'' 100
        (ex_state\<lparr>streaming_clients :=
           [(''a1b2c3d4'', \<lparr>last_frame = Some [], frame_time = Some 99\<rparr>)]\<rparr>)))) =
     Err 404 ''No frame available''"
proof -
  let ?stale = "ex_state\<lparr>streaming_clients :=
      [(''a1b2c3d4'', \<lparr>last_frame = Some [], frame_time = Some 99\<rparr>)]\<rparr>"
  have h1: "''a1b2c3d4'' \<noteq> []"
    by simp
  have h2: "map_of (clients ex_state) ''a1b2c3d4'' = Some ex_client"
    and h3: "map_of (streaming_clients ex_state) ''a1b2c3d4'' = Some ex_slot"
    by (simp_all add: ex_state_def)
  have h4: "last_frame ex_slot = Some [255, 216]" and h5: "[255, 216 :: 8 word] \<noteq> []"
    by (simp_all add: ex_slot_def)
  have g2: "map_of (clients ?stale) ''a1b2c3d4'' = Some ex_client"
    and g3: "map_of (streaming_clients ?stale) ''a1b2c3d4'' =
      Some \<lparr>last_frame = Some [], frame_time = Some 99\<rparr>"
    by (simp_all add: ex_state_def)
  have g4: "last_frame \<lparr>last_frame = Some [], frame_time = Some (99 :: real)\<rparr> = Some []"
    by simp
  have before: "fst (admin_stream_status ''a1b2c3d4'' ex_state) = Streaming True"
    by (simp add: admin_stream_status_def ex_state_def ex_client_def)
  from reregister_keeps_frame [OF h1 h2 h3 h4, of None "''10.0.0.9''" "''0f1e2d3c''" 100]
    reregister_keeps_frame [OF h1 g2 g3 g4, of None "''10.0.0.9''" "''0f1e2d3c''" 100]
    h5 before
  show ?thesis by simp
qed

text \<open>
  C10 as stated fails when the cached frame is the empty byte string: the push is accepted
  and the slot holds it, yet after re-registration \<open>admin_stream_frame\<close> answers 404 and not
  the pushed bytes.
\<close>

theorem reregister_empty_frame_counterexample:
  "fst (upload_file (Some ''a1b2c3d4'') None True (Some (''f.jpg'', [])) ''n.jpg'' 99 ex_state) =
     FrameReceived \<and>
   map_option last_frame
     (map_of (streaming_clients
        (snd (upload_file (Some ''a1b2c3d4'') None True (Some (''f.jpg'', [])) ''n.jpg'' 99 ex_state)))
        ''a1b2c3d4'') = Some (Some []) \<and>
   fst (admin_stream_frame ''a1b2c3d4''
     (snd (register (Some ''a1b2c3d4'') None ''10.0.0.9'' ''0f1e2d3c'' 100
        (snd (upload_file (Some ''a1b2c3d4'') None True (Some (''f.jpg'', [])) ''n.jpg'' 99
           ex_state))))) = Err 404 ''No frame available''"
  by (simp add: upload_file_def register_def admin_stream_frame_def unknown_client_def Let_def
      ex_state_def)

end
